theory Spec2Isabelle
  imports Main "HOL-Library.List_Lexorder" "HOL-Library.Char_ord"
begin

section \<open>py2deb: the low level conversion logic\<close>

text \<open>
  A shallow embedding of \<^verbatim>\<open>py2deb/package.py\<close> (class \<^verbatim>\<open>PackageToConvert\<close>) and of
  \<^verbatim>\<open>py2deb/backends/stdeb_backend.py\<close> (\<^verbatim>\<open>patch_control\<close>). Python strings are
  \<^typ>\<open>string\<close>, compared and sorted character by character (the order of
  \<^verbatim>\<open>sorted()\<close> on strings); an attribute that may be \<^verbatim>\<open>None\<close> is an option; a raised
  exception is the left summand of the result.
\<close>

subsection \<open>Exceptions\<close>

datatype error =
    UnsupportedSpecifier string string
  | MultipleEggInfo string string "string list"
  | BackendFailed string
  | ExternalCommandFailed "string list"
  | IOError string

subsection \<open>Python string and path primitives\<close>

text \<open>\<^verbatim>\<open>s.endswith(suffix)\<close>.\<close>

definition endswith :: "string \<Rightarrow> string \<Rightarrow> bool" where
  "endswith s suffix =
     (length suffix \<le> length s \<and> drop (length s - length suffix) s = suffix)"

text \<open>\<^verbatim>\<open>s.startswith(prefix)\<close>.\<close>

definition startswith :: "string \<Rightarrow> string \<Rightarrow> bool" where
  "startswith s prefix = (take (length prefix) s = prefix)"

text \<open>\<^verbatim>\<open>s.strip(chars)\<close>: drops the leading and the trailing characters that are in \<open>chars\<close>.\<close>

definition str_strip :: "string \<Rightarrow> string \<Rightarrow> string" where
  "str_strip chars s =
     rev (dropWhile (\<lambda>c. c \<in> set chars) (rev (dropWhile (\<lambda>c. c \<in> set chars) s)))"

text \<open>\<^verbatim>\<open>s.split(sep)\<close> for a separator of one character: never an empty list.\<close>

fun str_split :: "char \<Rightarrow> string \<Rightarrow> string list" where
  "str_split sep [] = [[]]"
| "str_split sep (c # cs) =
     (if c = sep then [] # str_split sep cs
      else (case str_split sep cs of
              [] \<Rightarrow> [[c]]
            | w # ws \<Rightarrow> (c # w) # ws))"

text \<open>\<^verbatim>\<open>sep.join(items)\<close>.\<close>

fun str_join :: "string \<Rightarrow> string list \<Rightarrow> string" where
  "str_join sep [] = []"
| "str_join sep [x] = x"
| "str_join sep (x # y # ys) = x @ sep @ str_join sep (y # ys)"

text \<open>
  \<^verbatim>\<open>os.path.join(a, *p)\<close> of \<^verbatim>\<open>posixpath\<close>: an absolute component replaces what came
  before it, a component after an empty path or a path ending in a slash is appended
  as it is, any other after a slash.
\<close>

definition os_path_join_step :: "string \<Rightarrow> string \<Rightarrow> string" where
  "os_path_join_step path b =
     (if startswith b ''/'' then b
      else if path = [] \<or> endswith path ''/'' then path @ b
      else path @ ''/'' @ b)"

definition os_path_join :: "string \<Rightarrow> string list \<Rightarrow> string" where
  "os_path_join a p = foldl os_path_join_step a p"

text \<open>The truth value of an attribute that is \<^verbatim>\<open>None\<close> or a string.\<close>

definition truthy :: "string option \<Rightarrow> bool" where
  "truthy v = (case v of None \<Rightarrow> False | Some s \<Rightarrow> s \<noteq> [])"

subsection \<open>The data the package object reads\<close>

text \<open>A \<^verbatim>\<open>pkg_resources.Requirement\<close>: project name, extras, (operator, version) pairs.\<close>

record pkg_requirement =
  project_name :: string
  extras :: "string list"
  specs :: "(string \<times> string) list"

text \<open>The \<^verbatim>\<open>pip_accel\<close> requirement a package is built from (\<^verbatim>\<open>self.requirement\<close>).\<close>

record accel_requirement =
  req_name :: string
  req_version :: string
  req_project_name :: string
  source_directory :: string

text \<open>
  The package to convert: its requirement, and the value of the cached property
  \<^verbatim>\<open>python_requirements\<close> (obtained from \<^verbatim>\<open>pkg_resources\<close>).
\<close>

record package_to_convert =
  requirement :: accel_requirement
  python_requirements :: "pkg_requirement list"

definition python_name :: "package_to_convert \<Rightarrow> string" where
  "python_name pkg = req_name (requirement pkg)"

text \<open>
  The \<^verbatim>\<open>PackageConverter\<close> (module \<^verbatim>\<open>py2deb.converter\<close>) is used through its
  methods \<^verbatim>\<open>transform_name(name, *extras)\<close> and
  \<^verbatim>\<open>transform_version(package, requirement_name, requirement_version)\<close> and its attribute
  \<^verbatim>\<open>debian_architecture\<close>; they are taken as they are given.
\<close>

record converter =
  transform_name :: "string \<Rightarrow> string list \<Rightarrow> string"
  transform_version :: "package_to_convert \<Rightarrow> string \<Rightarrow> string \<Rightarrow> string"
  debian_architecture :: string

text \<open>The fields of \<^verbatim>\<open>pkginfo.UnpackedSDist\<close> that \<^verbatim>\<open>debian_maintainer\<close> reads.\<close>

record pkg_metadata =
  maintainer :: "string option"
  maintainer_email :: "string option"
  author :: "string option"
  author_email :: "string option"

subsection \<open>\<^verbatim>\<open>debian_maintainer\<close>\<close>

definition debian_maintainer :: "pkg_metadata \<Rightarrow> string" where
  "debian_maintainer metadata =
     (let (m, m_email) =
            (if \<not> truthy (maintainer metadata)
             then (author metadata, author_email metadata)
             else (maintainer metadata, maintainer_email metadata))
      in case m of
           None \<Rightarrow> ''Unknown''
         | Some n \<Rightarrow>
             (if truthy m \<and> truthy m_email
              then (case m_email of
                      None \<Rightarrow> n
                    | Some e \<Rightarrow> n @ '' <'' @ str_strip ''<>'' e @ ''>'')
              else if truthy m then n else ''Unknown''))"

subsection \<open>\<^verbatim>\<open>namespaces\<close>\<close>

text \<open>The inner loop: every prefix of the components of one dotted name is added.\<close>

fun namespaces_components ::
  "string list \<Rightarrow> string list \<Rightarrow> string list set \<Rightarrow> string list set" where
  "namespaces_components dotted_name [] namespaces = namespaces"
| "namespaces_components dotted_name (component # rest) namespaces =
     namespaces_components (dotted_name @ [component]) rest
       (insert (dotted_name @ [component]) namespaces)"

text \<open>The outer loop over \<^verbatim>\<open>self.namespace_packages\<close>.\<close>

fun namespaces_packages :: "string list \<Rightarrow> string list set \<Rightarrow> string list set" where
  "namespaces_packages [] namespaces = namespaces"
| "namespaces_packages (namespace_package # rest) namespaces =
     namespaces_packages rest
       (namespaces_components [] (str_split CHR ''.'' namespace_package) namespaces)"

text \<open>
  \<^verbatim>\<open>sorted(namespaces, key=lambda n: len(n))\<close>: a stable sort of the set's elements in the
  order the set yields them. That order is the interpreter's; it is the parameter
  \<open>set_iter\<close>.
\<close>

definition namespaces ::
  "(string list set \<Rightarrow> string list list) \<Rightarrow> string list \<Rightarrow> string list list" where
  "namespaces set_iter namespace_packages =
     sort_key length (set_iter (namespaces_packages namespace_packages {}))"

text \<open>What is known of the order in which a finite set yields its elements.\<close>

definition iterates_sets :: "('a set \<Rightarrow> 'a list) \<Rightarrow> bool" where
  "iterates_sets set_iter =
     (\<forall>S. finite S \<longrightarrow> set (set_iter S) = S \<and> distinct (set_iter S))"

subsection \<open>\<^verbatim>\<open>debian_dependencies\<close>\<close>

text \<open>
  The body of the loop over \<^verbatim>\<open>requirement.specs\<close>, with the version already
  transformed: the relationship added to the set, or the exception raised.
\<close>

definition debian_dependencies_spec ::
  "string \<Rightarrow> string \<Rightarrow> string \<Rightarrow> string \<Rightarrow> error + string" where
  "debian_dependencies_spec pyname debian_package_name constraint version =
     (if version = ''dev'' then Inr debian_package_name
      else if constraint = ''=='' then
        Inr (debian_package_name @ '' (= '' @ version @ '')'')
      else if constraint = ''!='' then
        Inr (debian_package_name @ '' (<< '' @ version @ '') | ''
             @ debian_package_name @ '' (>> '' @ version @ '')'')
      else if constraint = ''<'' then
        Inr (debian_package_name @ '' (<< '' @ version @ '')'')
      else if constraint = ''>'' then
        Inr (debian_package_name @ '' (>> '' @ version @ '')'')
      else if constraint \<in> {''<='', ''>=''} then
        Inr (debian_package_name @ '' ('' @ constraint @ '' '' @ version @ '')'')
      else Inl (UnsupportedSpecifier constraint pyname))"

text \<open>The loop over the (constraint, version) pairs of one requirement.\<close>

fun debian_dependencies_specs ::
  "converter \<Rightarrow> package_to_convert \<Rightarrow> pkg_requirement \<Rightarrow> (string \<times> string) list
     \<Rightarrow> string set \<Rightarrow> error + string set" where
  "debian_dependencies_specs conv pkg req [] dependencies = Inr dependencies"
| "debian_dependencies_specs conv pkg req ((constraint, version) # rest) dependencies =
     (case debian_dependencies_spec (python_name pkg)
             (transform_name conv (project_name req) (extras req)) constraint
             (transform_version conv pkg (project_name req) version) of
        Inl e \<Rightarrow> Inl e
      | Inr d \<Rightarrow> debian_dependencies_specs conv pkg req rest (insert d dependencies))"

text \<open>The loop over \<^verbatim>\<open>self.python_requirements\<close>.\<close>

fun debian_dependencies_requirements ::
  "converter \<Rightarrow> package_to_convert \<Rightarrow> pkg_requirement list \<Rightarrow> string set
     \<Rightarrow> error + string set" where
  "debian_dependencies_requirements conv pkg [] dependencies = Inr dependencies"
| "debian_dependencies_requirements conv pkg (req # rest) dependencies =
     (if specs req \<noteq> [] then
        (case debian_dependencies_specs conv pkg req (specs req) dependencies of
           Inl e \<Rightarrow> Inl e
         | Inr dependencies' \<Rightarrow> debian_dependencies_requirements conv pkg rest dependencies')
      else debian_dependencies_requirements conv pkg rest
             (insert (transform_name conv (project_name req) (extras req)) dependencies))"

definition debian_dependencies :: "converter \<Rightarrow> package_to_convert \<Rightarrow> error + string list" where
  "debian_dependencies conv pkg =
     (case debian_dependencies_requirements conv pkg (python_requirements pkg) {} of
        Inl e \<Rightarrow> Inl e
      | Inr dependencies \<Rightarrow> Inr (sorted_list_of_set dependencies))"

text \<open>
  The translation table of the specification, written from its words: the Debian
  relationship for a supported operator, nothing for any other operator.
\<close>

definition spec_relationship :: "string \<Rightarrow> string \<Rightarrow> string \<Rightarrow> string option" where
  "spec_relationship n operator v =
     (if operator = ''=='' then Some (n @ '' (= '' @ v @ '')'')
      else if operator = ''!='' then
        Some (n @ '' (<< '' @ v @ '') | '' @ n @ '' (>> '' @ v @ '')'')
      else if operator = ''<'' then Some (n @ '' (<< '' @ v @ '')'')
      else if operator = ''>'' then Some (n @ '' (>> '' @ v @ '')'')
      else if operator = ''<='' then Some (n @ '' (<= '' @ v @ '')'')
      else if operator = ''>='' then Some (n @ '' (>= '' @ v @ '')'')
      else None)"

text \<open>The Debian name and the normalized version the mapper uses for a requirement.\<close>

definition debian_package_name :: "converter \<Rightarrow> pkg_requirement \<Rightarrow> string" where
  "debian_package_name conv req = transform_name conv (project_name req) (extras req)"

definition normalized_version ::
  "converter \<Rightarrow> package_to_convert \<Rightarrow> pkg_requirement \<Rightarrow> string \<Rightarrow> string" where
  "normalized_version conv pkg req v = transform_version conv pkg (project_name req) v"

subsection \<open>\<^verbatim>\<open>find_egg_info_file\<close>\<close>

text \<open>
  The file system: the contents of the files that exist. \<^verbatim>\<open>glob.glob\<close> reads it and
  is a parameter. The method writes nothing, so the file system it leaves is the one
  it found.
\<close>

type_synonym filesystem = "string \<rightharpoonup> string"

definition find_egg_info_file ::
  "(filesystem \<Rightarrow> string \<Rightarrow> string list) \<Rightarrow> package_to_convert \<Rightarrow> string \<Rightarrow> filesystem
     \<Rightarrow> (error + string option) \<times> filesystem" where
  "find_egg_info_file glob pkg pattern fs =
     (let full_pattern = os_path_join (source_directory (requirement pkg))
                           [''pip-egg-info'', ''*.egg-info'', pattern];
          matches = glob fs full_pattern
      in if length matches > 1 then
           (Inl (MultipleEggInfo (req_project_name (requirement pkg))
                   (req_version (requirement pkg)) matches), fs)
         else (case matches of
                 m # _ \<Rightarrow> (Inr (Some m), fs)
               | [] \<Rightarrow> (Inr None, fs)))"

subsection \<open>\<^verbatim>\<open>find_shared_object_files\<close> and \<^verbatim>\<open>determine_package_architecture\<close>\<close>

text \<open>
  The loop over the file names of one directory. \<open>strip_ok\<close> tells whether the
  external command \<^verbatim>\<open>strip --strip-unneeded\<close> succeeds on a path; when it does not,
  \<^verbatim>\<open>execute\<close> raises.
\<close>

fun find_shared_object_files_dir ::
  "(string \<Rightarrow> bool) \<Rightarrow> string \<Rightarrow> string list \<Rightarrow> string list \<Rightarrow> error + string list" where
  "find_shared_object_files_dir strip_ok root [] shared_object_files = Inr shared_object_files"
| "find_shared_object_files_dir strip_ok root (filename # files) shared_object_files =
     (if endswith filename ''.so'' then
        (if strip_ok (os_path_join root [filename]) then
           find_shared_object_files_dir strip_ok root files
             (shared_object_files @ [os_path_join root [filename]])
         else Inl (ExternalCommandFailed
                     [''strip'', ''--strip-unneeded'', os_path_join root [filename]]))
      else find_shared_object_files_dir strip_ok root files shared_object_files)"

text \<open>The loop over the (root, dirs, files) triples of \<^verbatim>\<open>os.walk(directory)\<close>.\<close>

fun find_shared_object_files_walk ::
  "(string \<Rightarrow> bool) \<Rightarrow> (string \<times> string list \<times> string list) list \<Rightarrow> string list
     \<Rightarrow> error + string list" where
  "find_shared_object_files_walk strip_ok [] shared_object_files = Inr shared_object_files"
| "find_shared_object_files_walk strip_ok ((root, dirs, files) # rest) shared_object_files =
     (case find_shared_object_files_dir strip_ok root files shared_object_files of
        Inl e \<Rightarrow> Inl e
      | Inr found \<Rightarrow> find_shared_object_files_walk strip_ok rest found)"

definition find_shared_object_files ::
  "(string \<Rightarrow> bool) \<Rightarrow> (string \<times> string list \<times> string list) list \<Rightarrow> error + string list" where
  "find_shared_object_files strip_ok walk = find_shared_object_files_walk strip_ok walk []"

definition determine_package_architecture :: "converter \<Rightarrow> string list \<Rightarrow> string" where
  "determine_package_architecture conv has_shared_object_files =
     (if has_shared_object_files \<noteq> [] then debian_architecture conv else ''all'')"

text \<open>The names of the files of a walk that end in \<^verbatim>\<open>.so\<close>.\<close>

definition so_files :: "(string \<times> string list \<times> string list) list \<Rightarrow> string list" where
  "so_files walk =
     concat (map (\<lambda>(root, dirs, files). filter (\<lambda>f. endswith f ''.so'') files) walk)"

subsection \<open>\<^verbatim>\<open>load_control_field_overrides\<close>\<close>

text \<open>
  A \<^verbatim>\<open>RawConfigParser\<close> after \<^verbatim>\<open>read\<close>: the options of the \<^verbatim>\<open>DEFAULT\<close> section, and the
  other sections in the order of the file.
\<close>

record config_parser =
  cfg_defaults :: "string \<rightharpoonup> string"
  cfg_sections :: "(string \<times> (string \<rightharpoonup> string)) list"

text \<open>\<^verbatim>\<open>parser.sections()\<close>: the names of the sections, \<^verbatim>\<open>DEFAULT\<close> not among them.\<close>

definition sections :: "config_parser \<Rightarrow> string list" where
  "sections parser = map fst (cfg_sections parser)"

text \<open>\<^verbatim>\<open>parser.has_section(name)\<close>.\<close>

definition has_section :: "config_parser \<Rightarrow> string \<Rightarrow> bool" where
  "has_section parser section_name = (section_name \<in> set (sections parser))"

text \<open>\<^verbatim>\<open>dict(parser.items(name))\<close>: the defaults, overridden by the section's options.\<close>

definition items :: "config_parser \<Rightarrow> string \<Rightarrow> (string \<rightharpoonup> string)" where
  "items parser section_name =
     (case map_of (cfg_sections parser) section_name of
        None \<Rightarrow> cfg_defaults parser
      | Some options \<Rightarrow> cfg_defaults parser ++ options)"

text \<open>
  The functions of \<^verbatim>\<open>deb_pkg_tools\<close> and \<^verbatim>\<open>debian.deb822\<close> the code calls, on a type
  \<open>'p\<close> of control paragraphs.
\<close>

record 'p control_tools =
  iter_paragraphs :: "string \<Rightarrow> 'p list"
  dump :: "'p \<Rightarrow> string"
  merge_control_fields :: "'p \<Rightarrow> (string \<rightharpoonup> string) \<Rightarrow> 'p"

text \<open>
  \<open>None\<close> for the parser: the file \<^verbatim>\<open>stdeb.cfg\<close> does not exist.
  \<open>package_names_match\<close> is the function of \<^verbatim>\<open>py2deb.utils\<close>. The method has no
  \<^verbatim>\<open>raise\<close>.
\<close>

definition load_control_field_overrides ::
  "(string \<Rightarrow> string \<Rightarrow> bool) \<Rightarrow> 'p control_tools \<Rightarrow> package_to_convert
     \<Rightarrow> config_parser option \<Rightarrow> 'p \<Rightarrow> error + 'p" where
  "load_control_field_overrides package_names_match tools pkg py2deb_cfg control_fields =
     (case py2deb_cfg of
        None \<Rightarrow> Inr control_fields
      | Some parser \<Rightarrow>
          (let section_names =
                 ''DEFAULT'' # filter (\<lambda>section_name.
                                  package_names_match section_name (python_name pkg))
                                (sections parser)
           in Inr (foldl (\<lambda>fields section_name.
                            if has_section parser section_name
                            then merge_control_fields tools fields (items parser section_name)
                            else fields)
                     control_fields section_names)))"

text \<open>The lower case of an ASCII letter; any other character is left as it is.\<close>

definition lower_char :: "char \<Rightarrow> char" where
  "lower_char c =
     (case map_of (zip ''ABCDEFGHIJKLMNOPQRSTUVWXYZ'' ''abcdefghijklmnopqrstuvwxyz'') c of
        None \<Rightarrow> c
      | Some l \<Rightarrow> l)"

text \<open>
  Modelled from the spec: \<^verbatim>\<open>package_names_match\<close> of \<^verbatim>\<open>py2deb.utils\<close> is not among the
  sources; the specification says names match by normalized name, "case-insensitive,
  underscore/dash-insensitive".
\<close>

definition package_names_match_spec :: "string \<Rightarrow> string \<Rightarrow> bool" where
  "package_names_match_spec a b =
     (map (\<lambda>c. if c = CHR ''_'' then CHR ''-'' else lower_char c) a
      = map (\<lambda>c. if c = CHR ''_'' then CHR ''-'' else lower_char c) b)"

subsection \<open>\<^verbatim>\<open>patch_control\<close> of the stdeb backend\<close>

text \<open>The attributes of the package object the backend reads.\<close>

record stdeb_package =
  stdeb_name :: string
  stdeb_directory :: string
  stdeb_debian_name :: string
  stdeb_debian_dependencies :: "string list"

text \<open>
  \<^verbatim>\<open>patch_control(package, config)\<close>; \<^verbatim>\<open>config\<close> is not used by the function.
  \<open>patch_control_file\<close> and \<open>get_tagged_description\<close> are the functions of
  \<^verbatim>\<open>py2deb.util\<close>. Opening a file that does not exist raises; the file is rewritten only
  after the check of the number of paragraphs.
\<close>

definition patch_control ::
  "'p control_tools \<Rightarrow> (stdeb_package \<Rightarrow> 'p \<Rightarrow> 'p) \<Rightarrow> string \<Rightarrow> stdeb_package \<Rightarrow> filesystem
     \<Rightarrow> (error + unit) \<times> filesystem" where
  "patch_control tools patch_control_file get_tagged_description package fs =
     (let control_file = os_path_join (stdeb_directory package) [''debian'', ''control'']
      in case fs control_file of
           None \<Rightarrow> (Inl (IOError control_file), fs)
         | Some contents \<Rightarrow>
             (let paragraphs = iter_paragraphs tools contents
              in if length paragraphs \<noteq> 2 then
                   (Inl (BackendFailed (''Unexpected control file format for ''
                                        @ stdeb_name package @ ''!'')), fs)
                 else
                   (let overrides =
                          [''Package'' \<mapsto> stdeb_debian_name package,
                           ''Description'' \<mapsto> get_tagged_description,
                           ''Depends'' \<mapsto> str_join '', '' (stdeb_debian_dependencies package)];
                        merged = merge_control_fields tools (paragraphs ! 1) overrides;
                        patched = patch_control_file package merged
                    in (Inr (),
                        fs(control_file \<mapsto>
                             dump tools (paragraphs ! 0) @ [CHR 0x0A] @ dump tools patched)))))"

subsection \<open>Auxiliary notions of the statements\<close>

text \<open>The operators the mapper translates.\<close>

definition supported_operators :: "string set" where
  "supported_operators = {''=='', ''!='', ''<'', ''>'', ''<='', ''>=''}"

text \<open>What the loop body does with one (operator, version) pair of a requirement.\<close>

definition spec_result ::
  "converter \<Rightarrow> package_to_convert \<Rightarrow> pkg_requirement \<Rightarrow> string \<Rightarrow> string \<Rightarrow> error + string" where
  "spec_result conv pkg req operator v =
     debian_dependencies_spec (python_name pkg) (debian_package_name conv req) operator
       (normalized_version conv pkg req v)"

text \<open>The relationships one requirement contributes when none of its pairs raises.\<close>

definition relationships ::
  "converter \<Rightarrow> package_to_convert \<Rightarrow> pkg_requirement \<Rightarrow> string list" where
  "relationships conv pkg req =
     (if specs req = [] then [debian_package_name conv req]
      else concat (map (\<lambda>(operator, v).
                     case spec_result conv pkg req operator v of
                       Inl e \<Rightarrow> []
                     | Inr d \<Rightarrow> [d]) (specs req)))"

text \<open>The pair of name and e-mail address \<^verbatim>\<open>debian_maintainer\<close> settles on.\<close>

definition chosen_maintainer :: "pkg_metadata \<Rightarrow> string option \<times> string option" where
  "chosen_maintainer metadata =
     (if truthy (maintainer metadata)
      then (maintainer metadata, maintainer_email metadata)
      else (author metadata, author_email metadata))"

text \<open>The non-empty prefixes of the components of the dotted names.\<close>

definition namespace_prefixes :: "string list \<Rightarrow> string list set" where
  "namespace_prefixes namespace_packages =
     (\<Union>namespace_package \<in> set namespace_packages.
        (\<lambda>k. take k (str_split CHR ''.'' namespace_package))
          ` {1 .. length (str_split CHR ''.'' namespace_package)})"

subsection \<open>Concrete collaborators for the examples\<close>

text \<open>A converter that prefixes names and leaves versions as they are.\<close>

definition example_converter :: converter where
  "example_converter =
     \<lparr>transform_name = (\<lambda>n es. ''python-'' @ n),
      transform_version = (\<lambda>pkg n v. v),
      debian_architecture = ''amd64''\<rparr>"

definition example_package :: "pkg_requirement list \<Rightarrow> package_to_convert" where
  "example_package reqs =
     \<lparr>requirement = \<lparr>req_name = ''celery'', req_version = ''3.1.16'',
                      req_project_name = ''celery'', source_directory = ''/tmp/celery''\<rparr>,
      python_requirements = reqs\<rparr>"

text \<open>A \<^verbatim>\<open>glob\<close> that answers with a fixed list of matches.\<close>

definition fixed_glob :: "string list \<Rightarrow> filesystem \<Rightarrow> string \<Rightarrow> string list" where
  "fixed_glob matches fs pattern = matches"

text \<open>
  Control paragraphs as lists of lines, paragraphs separated by a bar in the text;
  merging appends the overrides of \<^verbatim>\<open>Depends\<close> and \<^verbatim>\<open>Package\<close>.
\<close>

definition example_merge :: "string list \<Rightarrow> (string \<rightharpoonup> string) \<Rightarrow> string list" where
  "example_merge paragraph overrides =
     paragraph
     @ (case overrides ''Package'' of None \<Rightarrow> [] | Some v \<Rightarrow> [''Package: '' @ v])
     @ (case overrides ''Depends'' of None \<Rightarrow> [] | Some v \<Rightarrow> [''Depends: '' @ v])"

definition example_tools :: "string list control_tools" where
  "example_tools =
     \<lparr>iter_paragraphs = (\<lambda>text. map (\<lambda>p. [p]) (str_split CHR ''|'' text)),
      dump = str_join '';'',
      merge_control_fields = example_merge\<rparr>"

definition example_parser :: config_parser where
  "example_parser =
     \<lparr>cfg_defaults = Map.empty,
      cfg_sections = [(''foo-bar'', [''Depends'' \<mapsto> ''a'']),
                      (''Foo_Bar'', [''Depends'' \<mapsto> ''b''])]\<rparr>"

definition example_stdeb_package :: stdeb_package where
  "example_stdeb_package =
     \<lparr>stdeb_name = ''foo'', stdeb_directory = ''/tmp/foo'',
      stdeb_debian_name = ''python-foo'', stdeb_debian_dependencies = [''python-a'', ''python-b'']\<rparr>"

section \<open>Properties\<close>

subsection \<open>The architecture tag\<close>

lemma find_shared_object_files_dir_length:
  "find_shared_object_files_dir strip_ok root files acc = Inr found \<Longrightarrow>
   length found = length acc + length (filter (\<lambda>f. endswith f ''.so'') files)"
  by (induction files arbitrary: acc) (auto split: if_splits)

lemma find_shared_object_files_walk_length:
  "find_shared_object_files_walk strip_ok walk acc = Inr found \<Longrightarrow>
   length found = length acc + length (so_files walk)"
proof (induction walk arbitrary: acc)
  case Nil
  then show ?case by (simp add: so_files_def)
next
  case (Cons t walk)
  obtain root dirs files where t: "t = (root, dirs, files)" by (cases t) auto
  from Cons.prems t obtain mid where
    mid: "find_shared_object_files_dir strip_ok root files acc = Inr mid"
    and rest: "find_shared_object_files_walk strip_ok walk mid = Inr found"
    by (auto split: sum.splits)
  from find_shared_object_files_dir_length [OF mid] Cons.IH [OF rest] t
  show ?case by (simp add: so_files_def)
qed

lemma find_shared_object_files_dir_none:
  "filter (\<lambda>f. endswith f ''.so'') files = [] \<Longrightarrow>
   find_shared_object_files_dir strip_ok root files acc = Inr acc"
  by (induction files arbitrary: acc) (auto split: if_splits)

lemma find_shared_object_files_walk_none:
  "so_files walk = [] \<Longrightarrow> find_shared_object_files_walk strip_ok walk acc = Inr acc"
  by (induction walk arbitrary: acc)
     (auto simp: so_files_def find_shared_object_files_dir_none)

text \<open>
  Claim C9. The architecture tag depends only on whether shared object files were
  found: when no file name of the walked tree ends in \<^verbatim>\<open>.so\<close> the search returns the empty
  list and the tag is \<^verbatim>\<open>all\<close>; whenever the search returns, the tag is \<^verbatim>\<open>all\<close> if there is
  no such file and the converter's \<^verbatim>\<open>debian_architecture\<close> if there is at least one.
\<close>

theorem package_architecture_by_shared_objects:
  "(so_files walk = [] \<longrightarrow>
      find_shared_object_files strip_ok walk = Inr []
      \<and> determine_package_architecture conv [] = ''all'')
   \<and> (\<forall>found. find_shared_object_files strip_ok walk = Inr found \<longrightarrow>
        determine_package_architecture conv found =
          (if so_files walk = [] then ''all'' else debian_architecture conv))"
proof (intro conjI impI allI)
  assume "so_files walk = []"
  then show "find_shared_object_files strip_ok walk = Inr []"
    by (simp add: find_shared_object_files_def find_shared_object_files_walk_none)
next
  show "determine_package_architecture conv [] = ''all''"
    by (simp add: determine_package_architecture_def)
next
  fix found
  assume "find_shared_object_files strip_ok walk = Inr found"
  then have "length found = length (so_files walk)"
    using find_shared_object_files_walk_length [of strip_ok walk "[]" found]
    by (simp add: find_shared_object_files_def)
  then have "found = [] \<longleftrightarrow> so_files walk = []" by (metis length_0_conv)
  then show "determine_package_architecture conv found =
          (if so_files walk = [] then ''all'' else debian_architecture conv)"
    by (simp add: determine_package_architecture_def)
qed

theorem package_architecture_by_shared_objects_witness:
  "so_files [(''/b/lib'', [], [''a.py''])] = []
   \<and> find_shared_object_files (\<lambda>p. True) [(''/b/lib'', [], [''a.py''])] = Inr []
   \<and> find_shared_object_files (\<lambda>p. True) [(''/b/lib'', [''d''], [''a.py'', ''x.so''])]
       = Inr [''/b/lib/x.so'']
   \<and> determine_package_architecture example_converter [''/b/lib/x.so''] = ''amd64''"
proof -
  have none: "so_files [(''/b/lib'', [], [''a.py''])] = []"
    by (simp add: so_files_def endswith_def)
  have found: "find_shared_object_files (\<lambda>p. True) [(''/b/lib'', [''d''], [''a.py'', ''x.so''])]
       = Inr [''/b/lib/x.so'']"
    by (simp add: find_shared_object_files_def endswith_def os_path_join_def
        os_path_join_step_def startswith_def)
  have some: "so_files [(''/b/lib'', [''d''], [''a.py'', ''x.so''])] \<noteq> []"
    by (simp add: so_files_def endswith_def)
  from package_architecture_by_shared_objects
         [of "[(''/b/lib'', [], [''a.py''])]" "\<lambda>p. True"] none
  have a: "find_shared_object_files (\<lambda>p. True) [(''/b/lib'', [], [''a.py''])] = Inr []"
    by blast
  from package_architecture_by_shared_objects
         [of "[(''/b/lib'', [''d''], [''a.py'', ''x.so''])]" "\<lambda>p. True" example_converter]
       found some
  have b: "determine_package_architecture example_converter [''/b/lib/x.so''] = ''amd64''"
    by (simp add: example_converter_def)
  from none a found b show ?thesis by blast
qed

subsection \<open>The maintainer\<close>

text \<open>
  Claim C5, as the claim states it, fails: a maintainer name without an e-mail address
  is returned as it is, not replaced by \<^verbatim>\<open>Unknown\<close>.
\<close>

theorem debian_maintainer_name_without_email:
  "debian_maintainer \<lparr>maintainer = Some ''Alice'', maintainer_email = None,
      author = None, author_email = None\<rparr> = ''Alice''"
  by (simp add: debian_maintainer_def truthy_def)

text \<open>
  Claim C5, amended. The maintainer's name and address are used when the maintainer's
  name is not empty, the author's name and address otherwise. With a name and an address
  the result is \<^verbatim>\<open>Name <address>\<close>, the address stripped of leading and trailing angle
  brackets (so the address itself when it has none); with a name and no address it is
  the name alone; without a name it is \<^verbatim>\<open>Unknown\<close>.
\<close>

theorem debian_maintainer_fallback:
  "(truthy (maintainer md) \<longrightarrow>
      chosen_maintainer md = (maintainer md, maintainer_email md))
   \<and> (\<not> truthy (maintainer md) \<longrightarrow>
      chosen_maintainer md = (author md, author_email md))
   \<and> (\<forall>n e. chosen_maintainer md = (Some n, Some e) \<and> n \<noteq> [] \<and> e \<noteq> [] \<longrightarrow>
         debian_maintainer md = n @ '' <'' @ str_strip ''<>'' e @ ''>''
         \<and> (hd e \<notin> set ''<>'' \<and> last e \<notin> set ''<>'' \<longrightarrow>
              debian_maintainer md = n @ '' <'' @ e @ ''>''))
   \<and> (\<forall>n e. chosen_maintainer md = (Some n, e) \<and> n \<noteq> [] \<and> \<not> truthy e \<longrightarrow>
         debian_maintainer md = n)
   \<and> (\<not> truthy (fst (chosen_maintainer md)) \<longrightarrow> debian_maintainer md = ''Unknown'')"
proof -
  have strip_id: "str_strip ''<>'' e = e"
    if "e \<noteq> []" "hd e \<notin> set ''<>''" "last e \<notin> set ''<>''" for e :: string
  proof -
    from that have "dropWhile (\<lambda>c. c \<in> set ''<>'') e = e" by (cases e) auto
    moreover from that have "dropWhile (\<lambda>c. c \<in> set ''<>'') (rev e) = rev e"
      by (cases "rev e") (auto simp: hd_rev [symmetric])
    ultimately show ?thesis by (simp add: str_strip_def)
  qed
  show ?thesis
    by (auto simp: debian_maintainer_def chosen_maintainer_def truthy_def strip_id
        split: option.splits if_splits)
qed

theorem debian_maintainer_fallback_witness:
  "chosen_maintainer \<lparr>maintainer = Some [], maintainer_email = Some ''me@example.org'',
      author = Some ''Bob'', author_email = Some ''<bob@example.org>''\<rparr>
     = (Some ''Bob'', Some ''<bob@example.org>'')
   \<and> debian_maintainer \<lparr>maintainer = Some [], maintainer_email = Some ''me@example.org'',
      author = Some ''Bob'', author_email = Some ''<bob@example.org>''\<rparr>
     = ''Bob <bob@example.org>''"
proof -
  let ?md = "\<lparr>maintainer = Some [], maintainer_email = Some ''me@example.org'',
      author = Some ''Bob'', author_email = Some ''<bob@example.org>''\<rparr>"
  note t = debian_maintainer_fallback [of ?md]
  have nt: "\<not> truthy (maintainer ?md)" by (simp add: truthy_def)
  from t nt have c: "chosen_maintainer ?md = (Some ''Bob'', Some ''<bob@example.org>'')"
    by simp
  from t have r: "\<And>n e. chosen_maintainer ?md = (Some n, Some e) \<Longrightarrow> n \<noteq> [] \<Longrightarrow> e \<noteq> [] \<Longrightarrow>
      debian_maintainer ?md = n @ '' <'' @ str_strip ''<>'' e @ ''>''"
    by blast
  from r [OF c] have "debian_maintainer ?md = ''Bob <bob@example.org>''"
    by (simp add: str_strip_def)
  with c show ?thesis by blast
qed

subsection \<open>Locating the metadata directory\<close>

text \<open>
  Claim C3, as the claim states it, fails: with no match the method returns \<^verbatim>\<open>None\<close> and
  raises nothing.
\<close>

theorem find_egg_info_file_no_match_returns_none:
  "find_egg_info_file (fixed_glob []) (example_package []) [] Map.empty = (Inr None, Map.empty)"
  by (simp add: find_egg_info_file_def fixed_glob_def)

text \<open>
  Claim C3, amended. The method leaves the file system as it found it; it fails, with
  the error that names the package and the matches, whenever two or more paths match
  the pattern; it returns the match when there is exactly one and \<^verbatim>\<open>None\<close>, without
  failing, when there is none.
\<close>

theorem find_egg_info_file_result:
  "find_egg_info_file glob pkg pattern fs = (r, fs') \<Longrightarrow>
   matches = glob fs (os_path_join (source_directory (requirement pkg))
                        [''pip-egg-info'', ''*.egg-info'', pattern]) \<Longrightarrow>
   fs' = fs
   \<and> (2 \<le> length matches \<longrightarrow>
        r = Inl (MultipleEggInfo (req_project_name (requirement pkg))
                   (req_version (requirement pkg)) matches))
   \<and> (\<forall>m. matches = [m] \<longrightarrow> r = Inr (Some m))
   \<and> (matches = [] \<longrightarrow> r = Inr None)"
  by (auto simp: find_egg_info_file_def Let_def split: if_splits list.splits)

theorem find_egg_info_file_result_witness:
  "find_egg_info_file
     (fixed_glob [''/tmp/celery/pip-egg-info/a.egg-info/'',
                  ''/tmp/celery/pip-egg-info/b.egg-info/''])
     (example_package []) [] Map.empty
   = (Inl (MultipleEggInfo ''celery'' ''3.1.16''
             [''/tmp/celery/pip-egg-info/a.egg-info/'',
              ''/tmp/celery/pip-egg-info/b.egg-info/'']), Map.empty)"
  using find_egg_info_file_result
    [of "fixed_glob [''/tmp/celery/pip-egg-info/a.egg-info/'',
                     ''/tmp/celery/pip-egg-info/b.egg-info/'']"
        "example_package []" "[]" Map.empty
        "fst (find_egg_info_file
                (fixed_glob [''/tmp/celery/pip-egg-info/a.egg-info/'',
                             ''/tmp/celery/pip-egg-info/b.egg-info/''])
                (example_package []) [] Map.empty)"
        "snd (find_egg_info_file
                (fixed_glob [''/tmp/celery/pip-egg-info/a.egg-info/'',
                             ''/tmp/celery/pip-egg-info/b.egg-info/''])
                (example_package []) [] Map.empty)"
        "[''/tmp/celery/pip-egg-info/a.egg-info/'', ''/tmp/celery/pip-egg-info/b.egg-info/'']"]
  by (simp add: fixed_glob_def example_package_def prod_eq_iff)

subsection \<open>Control field overrides\<close>

text \<open>
  Claim C4, as the claim states it, fails: with two sections whose names both match the
  package, the method raises nothing and merges both, in the order of the file.
\<close>

theorem load_control_field_overrides_two_matching_sections:
  "package_names_match_spec ''foo-bar'' ''foo-bar''
   \<and> package_names_match_spec ''Foo_Bar'' ''foo-bar''
   \<and> load_control_field_overrides package_names_match_spec example_tools
       \<lparr>requirement = \<lparr>req_name = ''foo-bar'', req_version = ''1.0'',
                        req_project_name = ''foo-bar'', source_directory = ''/tmp/foo-bar''\<rparr>,
        python_requirements = []\<rparr>
       (Some example_parser) [''Depends: python'']
     = Inr [''Depends: python'', ''Depends: a'', ''Depends: b'']"
  by (simp add: load_control_field_overrides_def package_names_match_spec_def lower_char_def
      example_parser_def example_tools_def example_merge_def python_name_def sections_def
      has_section_def items_def)

lemma overrides_fold:
  assumes d: "distinct (map fst (cfg_sections parser))"
  shows "set ss \<subseteq> set (cfg_sections parser) \<Longrightarrow>
     foldl (\<lambda>paragraph section_name.
              if has_section parser section_name
              then merge_control_fields tools paragraph (items parser section_name)
              else paragraph) control_fields (map fst ss)
     = foldl (\<lambda>paragraph (section_name, options).
                merge_control_fields tools paragraph (cfg_defaults parser ++ options))
         control_fields ss"
proof (induction ss arbitrary: control_fields)
  case Nil
  then show ?case by simp
next
  case (Cons s ss)
  obtain n opts where s: "s = (n, opts)" by (cases s) auto
  with Cons.prems have mem: "(n, opts) \<in> set (cfg_sections parser)" by simp
  then have has: "has_section parser n"
    by (force simp: has_section_def sections_def)
  from d mem have "map_of (cfg_sections parser) n = Some opts" by simp
  then have it: "items parser n = cfg_defaults parser ++ opts"
    by (simp add: items_def)
  from Cons.prems have "set ss \<subseteq> set (cfg_sections parser)" by simp
  from Cons.IH [OF this] s has it show ?case by simp
qed

text \<open>
  Claim C4, amended. The method raises no configuration error: for a parser with distinct
  section names (none of them \<^verbatim>\<open>DEFAULT\<close>) it returns the control fields with the
  options of every section whose name matches the package merged in, one section after
  the other in the order of the file, each on top of the options of \<^verbatim>\<open>DEFAULT\<close>; two
  matching sections are both applied.
\<close>

theorem load_control_field_overrides_merges_every_match:
  assumes "distinct (sections parser)" and "''DEFAULT'' \<notin> set (sections parser)"
  shows "load_control_field_overrides package_names_match tools pkg (Some parser) control_fields
     = Inr (foldl (\<lambda>paragraph (section_name, options).
                     merge_control_fields tools paragraph (cfg_defaults parser ++ options))
              control_fields
              (filter (\<lambda>(section_name, options).
                         package_names_match section_name (python_name pkg))
                 (cfg_sections parser)))"
proof -
  have d: "distinct (map fst (cfg_sections parser))"
    using assms(1) by (simp add: sections_def)
  have nd: "\<not> has_section parser ''DEFAULT''"
    using assms(2) by (simp add: has_section_def)
  have f: "filter (\<lambda>section_name. package_names_match section_name (python_name pkg))
             (sections parser)
           = map fst (filter (\<lambda>(section_name, options).
                         package_names_match section_name (python_name pkg))
                 (cfg_sections parser))"
    by (simp add: sections_def filter_map comp_def case_prod_unfold)
  show ?thesis
    using nd overrides_fold [OF d, of "filter (\<lambda>(section_name, options).
                         package_names_match section_name (python_name pkg))
                 (cfg_sections parser)" tools control_fields]
    by (simp add: load_control_field_overrides_def f)
qed

theorem load_control_field_overrides_merges_every_match_witness:
  "distinct (sections example_parser) \<and> ''DEFAULT'' \<notin> set (sections example_parser)
   \<and> load_control_field_overrides package_names_match_spec example_tools
       \<lparr>requirement = \<lparr>req_name = ''foo-bar'', req_version = ''1.0'',
                        req_project_name = ''foo-bar'', source_directory = ''/tmp/foo-bar''\<rparr>,
        python_requirements = []\<rparr>
       (Some example_parser) []
     = Inr [''Depends: a'', ''Depends: b'']"
proof -
  have d: "distinct (sections example_parser)"
    by (simp add: sections_def example_parser_def)
  have n: "''DEFAULT'' \<notin> set (sections example_parser)"
    by (simp add: sections_def example_parser_def)
  from load_control_field_overrides_merges_every_match [OF d n, of package_names_match_spec
         example_tools "\<lparr>requirement = \<lparr>req_name = ''foo-bar'', req_version = ''1.0'',
                        req_project_name = ''foo-bar'', source_directory = ''/tmp/foo-bar''\<rparr>,
        python_requirements = []\<rparr>" "[]"]
  have "load_control_field_overrides package_names_match_spec example_tools
       \<lparr>requirement = \<lparr>req_name = ''foo-bar'', req_version = ''1.0'',
                        req_project_name = ''foo-bar'', source_directory = ''/tmp/foo-bar''\<rparr>,
        python_requirements = []\<rparr>
       (Some example_parser) []
     = Inr [''Depends: a'', ''Depends: b'']"
    by (simp add: package_names_match_spec_def lower_char_def
      example_parser_def example_tools_def example_merge_def python_name_def)
  with d n show ?thesis by blast
qed

subsection \<open>Patching the control file of the stdeb backend\<close>

text \<open>
  Claim C8. For a control file that can be read: when it does not hold exactly two
  paragraphs the function fails with \<^verbatim>\<open>BackendFailed\<close> and leaves the file as it was;
  when it holds exactly two, the function succeeds and writes back the first (source)
  paragraph as it was read, a newline, and the second (binary) paragraph with the
  overrides merged in and the configured patches applied.
\<close>

theorem patch_control_two_paragraphs:
  assumes "fs (os_path_join (stdeb_directory package) [''debian'', ''control'']) = Some contents"
  shows "(length (iter_paragraphs tools contents) \<noteq> 2 \<longrightarrow>
            patch_control tools patch_control_file get_tagged_description package fs
              = (Inl (BackendFailed (''Unexpected control file format for ''
                                     @ stdeb_name package @ ''!'')), fs))
         \<and> (\<forall>source binary. iter_paragraphs tools contents = [source, binary] \<longrightarrow>
              patch_control tools patch_control_file get_tagged_description package fs
                = (Inr (),
                   fs(os_path_join (stdeb_directory package) [''debian'', ''control'']
                        \<mapsto> dump tools source @ [CHR 0x0A]
                            @ dump tools
                                (patch_control_file package
                                   (merge_control_fields tools binary
                                      [''Package'' \<mapsto> stdeb_debian_name package,
                                       ''Description'' \<mapsto> get_tagged_description,
                                       ''Depends'' \<mapsto> str_join '', ''
                                          (stdeb_debian_dependencies package)])))))"
  using assms by (auto simp: patch_control_def Let_def)

theorem patch_control_two_paragraphs_witness:
  "fst (patch_control example_tools (\<lambda>package paragraph. paragraph) ''converted by py2deb''
          example_stdeb_package [''/tmp/foo/debian/control'' \<mapsto> ''Source: foo''])
     = Inl (BackendFailed ''Unexpected control file format for foo!'')
   \<and> snd (patch_control example_tools (\<lambda>package paragraph. paragraph) ''converted by py2deb''
          example_stdeb_package
          [''/tmp/foo/debian/control'' \<mapsto> ''Source: foo|Package: foo''])
        ''/tmp/foo/debian/control''
     = Some (''Source: foo'' @ [CHR 0x0A]
             @ ''Package: foo;Package: python-foo;Depends: python-a, python-b'')"
proof -
  have path0: "os_path_join ''/tmp/foo'' [''debian'', ''control''] = ''/tmp/foo/debian/control''"
    by (simp add: os_path_join_def os_path_join_step_def startswith_def endswith_def)
  have path: "os_path_join (stdeb_directory example_stdeb_package) [''debian'', ''control'']
                = ''/tmp/foo/debian/control''"
    by (simp add: path0 example_stdeb_package_def)
  have one: "[''/tmp/foo/debian/control'' \<mapsto> ''Source: foo'']
               (os_path_join (stdeb_directory example_stdeb_package) [''debian'', ''control''])
             = Some ''Source: foo''"
    by (simp add: path)
  have two: "[''/tmp/foo/debian/control'' \<mapsto> ''Source: foo|Package: foo'']
               (os_path_join (stdeb_directory example_stdeb_package) [''debian'', ''control''])
             = Some ''Source: foo|Package: foo''"
    by (simp add: path)
  have p1: "iter_paragraphs example_tools ''Source: foo'' = [[''Source: foo'']]"
    by (simp add: example_tools_def)
  have p2: "iter_paragraphs example_tools ''Source: foo|Package: foo''
              = [[''Source: foo''], [''Package: foo'']]"
    by (simp add: example_tools_def)
  from patch_control_two_paragraphs [where fs = "[''/tmp/foo/debian/control'' \<mapsto> ''Source: foo'']"
         and package = example_stdeb_package and contents = "''Source: foo''"
         and tools = example_tools and patch_control_file = "\<lambda>package paragraph. paragraph"
         and get_tagged_description = "''converted by py2deb''", OF one] p1
  have a: "fst (patch_control example_tools (\<lambda>package paragraph. paragraph)
                  ''converted by py2deb'' example_stdeb_package
                  [''/tmp/foo/debian/control'' \<mapsto> ''Source: foo''])
           = Inl (BackendFailed ''Unexpected control file format for foo!'')"
    by (simp add: example_stdeb_package_def)
  from patch_control_two_paragraphs [where fs = "[''/tmp/foo/debian/control'' \<mapsto> ''Source: foo|Package: foo'']"
         and package = example_stdeb_package and contents = "''Source: foo|Package: foo''"
         and tools = example_tools and patch_control_file = "\<lambda>package paragraph. paragraph"
         and get_tagged_description = "''converted by py2deb''", OF two] p2
  have b: "snd (patch_control example_tools (\<lambda>package paragraph. paragraph)
                  ''converted by py2deb'' example_stdeb_package
                  [''/tmp/foo/debian/control'' \<mapsto> ''Source: foo|Package: foo''])
             ''/tmp/foo/debian/control''
           = Some (''Source: foo'' @ [CHR 0x0A]
                   @ ''Package: foo;Package: python-foo;Depends: python-a, python-b'')"
    by (simp add: path0 example_tools_def example_merge_def example_stdeb_package_def)
  from a b show ?thesis by blast
qed

subsection \<open>Namespaces\<close>

lemma namespaces_components_set:
  "namespaces_components dotted_name components S
     = S \<union> (\<lambda>k. dotted_name @ take k components) ` {1 .. length components}"
proof (induction components arbitrary: dotted_name S)
  case Nil
  then show ?case by simp
next
  case (Cons c rest)
  have img: "(\<lambda>k. dotted_name @ take k (c # rest)) ` {1 .. Suc (length rest)}
        = insert (dotted_name @ [c])
            ((\<lambda>k. (dotted_name @ [c]) @ take k rest) ` {1 .. length rest})"
  proof (intro set_eqI iffI)
    fix t
    assume "t \<in> (\<lambda>k. dotted_name @ take k (c # rest)) ` {1 .. Suc (length rest)}"
    then obtain k where k: "1 \<le> k" "k \<le> Suc (length rest)"
      and t: "t = dotted_name @ take k (c # rest)" by auto
    from k obtain j where j: "k = Suc j" by (cases k) auto
    show "t \<in> insert (dotted_name @ [c])
            ((\<lambda>k. (dotted_name @ [c]) @ take k rest) ` {1 .. length rest})"
    proof (cases j)
      case 0
      with t j show ?thesis by simp
    next
      case (Suc i)
      with k j have "j \<in> {1 .. length rest}" by simp
      moreover from t j have "t = (dotted_name @ [c]) @ take j rest" by simp
      ultimately show ?thesis by blast
    qed
  next
    fix t
    assume "t \<in> insert (dotted_name @ [c])
            ((\<lambda>k. (dotted_name @ [c]) @ take k rest) ` {1 .. length rest})"
    then consider "t = dotted_name @ [c]"
      | j where "1 \<le> j" "j \<le> length rest" "t = (dotted_name @ [c]) @ take j rest"
      by auto
    then show "t \<in> (\<lambda>k. dotted_name @ take k (c # rest)) ` {1 .. Suc (length rest)}"
    proof cases
      case 1
      then have "t = dotted_name @ take 1 (c # rest)" by simp
      then show ?thesis by (intro image_eqI [where x = 1]) auto
    next
      case (2 j)
      then have "t = dotted_name @ take (Suc j) (c # rest)" by simp
      with 2 show ?thesis by (intro image_eqI [where x = "Suc j"]) auto
    qed
  qed
  show ?case using Cons.IH [of "dotted_name @ [c]" "insert (dotted_name @ [c]) S"] img
    by (simp del: append_assoc)
qed

lemma namespaces_packages_set:
  "namespaces_packages namespace_packages S = S \<union> namespace_prefixes namespace_packages"
proof (induction namespace_packages arbitrary: S)
  case Nil
  then show ?case by (simp add: namespace_prefixes_def)
next
  case (Cons p ps)
  show ?case
    by (simp add: Cons.IH namespaces_components_set namespace_prefixes_def Un_assoc)
qed

lemma finite_namespace_prefixes: "finite (namespace_prefixes namespace_packages)"
  by (simp add: namespace_prefixes_def)

lemma namespace_prefixes_closed:
  assumes "t \<in> namespace_prefixes namespace_packages" "0 < k" "k \<le> length t"
  shows "take k t \<in> namespace_prefixes namespace_packages"
proof -
  from assms(1) obtain p j where p: "p \<in> set namespace_packages"
    and j: "1 \<le> j" "j \<le> length (str_split CHR ''.'' p)"
    and t: "t = take j (str_split CHR ''.'' p)"
    by (auto simp: namespace_prefixes_def)
  from t j have "length t = j" by simp
  with assms(3) have kj: "k \<le> j" by simp
  with t j have "take k t = take k (str_split CHR ''.'' p)" "k \<le> length (str_split CHR ''.'' p)"
    by (simp_all add: min_def)
  with assms(2) p show ?thesis
    unfolding namespace_prefixes_def
    by (intro UN_I [where a = p] image_eqI [where x = k]) auto
qed

lemma sorted_three:
  fixes ys :: "'a list list"
  assumes s: "sorted (map length ys)" and d: "distinct ys" and e: "set ys = {a, b, c}"
    and l: "length a < length b" "length b < length c"
  shows "ys = [a, b, c]"
proof -
  from l have ne: "a \<noteq> b" "b \<noteq> c" "a \<noteq> c" by auto
  from d e ne have "length ys = 3" using distinct_card [of ys] by simp
  then obtain y1 y2 y3 where ys: "ys = [y1, y2, y3]"
    by (auto simp: numeral_3_eq_3 length_Suc_conv)
  from s ys have ord: "length y1 \<le> length y2" "length y2 \<le> length y3" by simp_all
  from e ys have m: "y1 \<in> {a, b, c}" "y2 \<in> {a, b, c}" "y3 \<in> {a, b, c}"
    and cov: "a \<in> {y1, y2, y3}" "b \<in> {y1, y2, y3}" "c \<in> {y1, y2, y3}" by auto
  from d ys have dd: "y1 \<noteq> y2" "y2 \<noteq> y3" "y1 \<noteq> y3" by auto
  from m cov dd ord l ys show ?thesis by auto
qed

text \<open>
  Claim C6. Whatever the order in which the interpreter yields the elements of a set,
  the namespaces are exactly the non-empty prefixes of the component tuples of the
  dotted names, each once, sorted by increasing tuple length; every non-empty prefix of a
  tuple of the result is in the result (with \<open>(a, b)\<close> also \<open>(a,)\<close>); and the
  input \<^verbatim>\<open>["zope.app.cache"]\<close> yields \<^verbatim>\<open>[("zope",), ("zope","app"), ("zope","app","cache")]\<close>.
\<close>

theorem namespaces_prefix_closed_sorted:
  assumes "iterates_sets set_iter"
  shows "set (namespaces set_iter namespace_packages) = namespace_prefixes namespace_packages
    \<and> distinct (namespaces set_iter namespace_packages)
    \<and> sorted (map length (namespaces set_iter namespace_packages))
    \<and> (\<forall>t \<in> set (namespaces set_iter namespace_packages). \<forall>k. 0 < k \<and> k \<le> length t \<longrightarrow>
          take k t \<in> set (namespaces set_iter namespace_packages))
    \<and> namespaces set_iter [''zope.app.cache'']
        = [[''zope''], [''zope'', ''app''], [''zope'', ''app'', ''cache'']]"
proof -
  have it: "set (set_iter (namespace_prefixes nps)) = namespace_prefixes nps
            \<and> distinct (set_iter (namespace_prefixes nps))" for nps
    using assms finite_namespace_prefixes [of nps] by (simp add: iterates_sets_def)
  have s: "set (namespaces set_iter nps) = namespace_prefixes nps" for nps
    by (simp add: namespaces_def namespaces_packages_set it)
  have d: "distinct (namespaces set_iter nps)" for nps
    by (simp add: namespaces_def namespaces_packages_set it)
  have o: "sorted (map length (namespaces set_iter nps))" for nps
    by (simp add: namespaces_def)
  have z: "namespace_prefixes [''zope.app.cache'']
             = {[''zope''], [''zope'', ''app''], [''zope'', ''app'', ''cache'']}"
    using namespaces_packages_set [of "[''zope.app.cache'']" "{}"] by auto
  have ex: "namespaces set_iter [''zope.app.cache'']
        = [[''zope''], [''zope'', ''app''], [''zope'', ''app'', ''cache'']]"
    by (rule sorted_three [OF o d]) (simp_all add: s z)
  from s d o ex namespace_prefixes_closed show ?thesis by blast
qed

theorem namespaces_prefix_closed_sorted_witness:
  "iterates_sets (sorted_list_of_set :: string list set \<Rightarrow> string list list)
   \<and> namespaces sorted_list_of_set [''zope.app'', ''zope'', ''a.b'']
       = [[''a''], [''zope''], [''a'', ''b''], [''zope'', ''app'']]
   \<and> namespaces sorted_list_of_set [''zope.app.cache'']
        = [[''zope''], [''zope'', ''app''], [''zope'', ''app'', ''cache'']]"
proof -
  have h: "iterates_sets (sorted_list_of_set :: string list set \<Rightarrow> string list list)"
    by (simp add: iterates_sets_def)
  have e: "namespaces sorted_list_of_set [''zope.app'', ''zope'', ''a.b'']
       = [[''a''], [''zope''], [''a'', ''b''], [''zope'', ''app'']]"
    by code_simp
  from namespaces_prefix_closed_sorted [OF h] h e show ?thesis by blast
qed

subsection \<open>The dependency mapper\<close>

lemma debian_dependencies_spec_dev:
  "debian_dependencies_spec p n operator ''dev'' = Inr n"
  by (simp add: debian_dependencies_spec_def)

lemma debian_dependencies_spec_table:
  "v \<noteq> ''dev'' \<Longrightarrow>
   debian_dependencies_spec p n operator v =
     (case spec_relationship n operator v of
        Some d \<Rightarrow> Inr d
      | None \<Rightarrow> Inl (UnsupportedSpecifier operator p))"
  by (auto simp: debian_dependencies_spec_def spec_relationship_def)

lemma spec_relationship_None:
  "spec_relationship n operator v = None \<longleftrightarrow> operator \<notin> supported_operators"
  by (simp add: spec_relationship_def supported_operators_def)

lemma spec_result_Inl:
  "spec_result conv pkg req operator v = Inl e \<longleftrightarrow>
     normalized_version conv pkg req v \<noteq> ''dev'' \<and> operator \<notin> supported_operators
     \<and> e = UnsupportedSpecifier operator (python_name pkg)"
proof (cases "normalized_version conv pkg req v = ''dev''")
  case True
  then show ?thesis by (simp add: spec_result_def debian_dependencies_spec_dev)
next
  case False
  note iff = spec_relationship_None [of "debian_package_name conv req" operator
               "normalized_version conv pkg req v"]
  show ?thesis
  proof (cases "spec_relationship (debian_package_name conv req) operator
                 (normalized_version conv pkg req v)")
    case None
    with iff have "operator \<notin> supported_operators" by simp
    with None False show ?thesis
      by (auto simp: spec_result_def debian_dependencies_spec_table)
  next
    case (Some d)
    with iff have "operator \<in> supported_operators" by simp
    with Some False show ?thesis
      by (auto simp: spec_result_def debian_dependencies_spec_table)
  qed
qed

lemma debian_dependencies_specs_Inr:
  "debian_dependencies_specs conv pkg req sp deps = Inr deps' \<Longrightarrow>
   deps' = deps \<union> set (concat (map (\<lambda>(operator, v).
                     case spec_result conv pkg req operator v of
                       Inl e \<Rightarrow> []
                     | Inr d \<Rightarrow> [d]) sp))
   \<and> (\<forall>(operator, v) \<in> set sp. \<exists>d. spec_result conv pkg req operator v = Inr d)"
proof (induction sp arbitrary: deps)
  case Nil
  then show ?case by simp
next
  case (Cons s sp)
  obtain operator v where s: "s = (operator, v)" by (cases s) auto
  from Cons.prems s obtain d where
    d: "spec_result conv pkg req operator v = Inr d"
    and rest: "debian_dependencies_specs conv pkg req sp (insert d deps) = Inr deps'"
    by (auto simp: spec_result_def debian_package_name_def normalized_version_def
        split: sum.splits)
  from Cons.IH [OF rest] d s show ?case by auto
qed

lemma debian_dependencies_specs_Inl:
  "debian_dependencies_specs conv pkg req sp deps = Inl e \<Longrightarrow>
   \<exists>(operator, v) \<in> set sp. spec_result conv pkg req operator v = Inl e"
proof (induction sp arbitrary: deps)
  case Nil
  then show ?case by simp
next
  case (Cons s sp)
  obtain operator v where s: "s = (operator, v)" by (cases s) auto
  show ?case
  proof (cases "spec_result conv pkg req operator v")
    case (Inl e')
    with Cons.prems s have "e' = e"
      by (simp add: spec_result_def debian_package_name_def normalized_version_def)
    with Inl s show ?thesis by auto
  next
    case (Inr d)
    with Cons.prems s
    have "debian_dependencies_specs conv pkg req sp (insert d deps) = Inl e"
      by (simp add: spec_result_def debian_package_name_def normalized_version_def)
    from Cons.IH [OF this] show ?thesis by auto
  qed
qed

lemma debian_dependencies_requirements_Inr:
  "debian_dependencies_requirements conv pkg rs deps = Inr deps' \<Longrightarrow>
   deps' = deps \<union> (\<Union>r \<in> set rs. set (relationships conv pkg r))
   \<and> (\<forall>r \<in> set rs. \<forall>(operator, v) \<in> set (specs r).
         \<exists>d. spec_result conv pkg r operator v = Inr d)"
proof (induction rs arbitrary: deps)
  case Nil
  then show ?case by simp
next
  case (Cons r rs)
  show ?case
  proof (cases "specs r = []")
    case True
    with Cons.prems have
      "debian_dependencies_requirements conv pkg rs
         (insert (debian_package_name conv r) deps) = Inr deps'"
      by (simp add: debian_package_name_def)
    from Cons.IH [OF this] True show ?thesis by (auto simp: relationships_def)
  next
    case False
    with Cons.prems obtain mid where
      mid: "debian_dependencies_specs conv pkg r (specs r) deps = Inr mid"
      and rest: "debian_dependencies_requirements conv pkg rs mid = Inr deps'"
      by (auto split: sum.splits)
    from debian_dependencies_specs_Inr [OF mid] False
    have m: "mid = deps \<union> set (relationships conv pkg r)"
      and ok: "\<forall>(operator, v) \<in> set (specs r). \<exists>d. spec_result conv pkg r operator v = Inr d"
      by (simp_all add: relationships_def)
    from Cons.IH [OF rest] m ok show ?thesis by auto
  qed
qed

lemma debian_dependencies_requirements_Inl:
  "debian_dependencies_requirements conv pkg rs deps = Inl e \<Longrightarrow>
   \<exists>r \<in> set rs. \<exists>(operator, v) \<in> set (specs r). spec_result conv pkg r operator v = Inl e"
proof (induction rs arbitrary: deps)
  case Nil
  then show ?case by simp
next
  case (Cons r rs)
  show ?case
  proof (cases "specs r = []")
    case True
    with Cons.prems have
      "debian_dependencies_requirements conv pkg rs
         (insert (transform_name conv (project_name r) (extras r)) deps) = Inl e"
      by simp
    from Cons.IH [OF this] show ?thesis by auto
  next
    case False
    show ?thesis
    proof (cases "debian_dependencies_specs conv pkg r (specs r) deps")
      case (Inl e')
      with Cons.prems False have "e' = e" by simp
      with debian_dependencies_specs_Inl [OF Inl] show ?thesis by auto
    next
      case (Inr mid)
      with Cons.prems False
      have "debian_dependencies_requirements conv pkg rs mid = Inl e" by simp
      from Cons.IH [OF this] show ?thesis by auto
    qed
  qed
qed

lemma debian_dependencies_Inr:
  assumes "debian_dependencies conv pkg = Inr deps"
  shows "set deps = (\<Union>r \<in> set (python_requirements pkg). set (relationships conv pkg r))"
    and "sorted deps" and "distinct deps"
    and "\<forall>r \<in> set (python_requirements pkg). \<forall>(operator, v) \<in> set (specs r).
           \<exists>d. spec_result conv pkg r operator v = Inr d"
proof -
  from assms obtain S where
    S: "debian_dependencies_requirements conv pkg (python_requirements pkg) {} = Inr S"
    and deps: "deps = sorted_list_of_set S"
    by (auto simp: debian_dependencies_def split: sum.splits)
  from debian_dependencies_requirements_Inr [OF S]
  have eq: "S = (\<Union>r \<in> set (python_requirements pkg). set (relationships conv pkg r))"
    and ok: "\<forall>r \<in> set (python_requirements pkg). \<forall>(operator, v) \<in> set (specs r).
           \<exists>d. spec_result conv pkg r operator v = Inr d"
    by simp_all
  from eq have "finite S" by simp
  with deps eq show "set deps = (\<Union>r \<in> set (python_requirements pkg). set (relationships conv pkg r))"
    by simp
  from deps show "sorted deps" "distinct deps" by simp_all
  from ok show "\<forall>r \<in> set (python_requirements pkg). \<forall>(operator, v) \<in> set (specs r).
           \<exists>d. spec_result conv pkg r operator v = Inr d" .
qed

lemma debian_dependencies_Inl:
  assumes "debian_dependencies conv pkg = Inl e"
  shows "\<exists>r \<in> set (python_requirements pkg). \<exists>(operator, v) \<in> set (specs r).
           normalized_version conv pkg r v \<noteq> ''dev'' \<and> operator \<notin> supported_operators
           \<and> e = UnsupportedSpecifier operator (python_name pkg)"
proof -
  from assms have
    "debian_dependencies_requirements conv pkg (python_requirements pkg) {} = Inl e"
    by (auto simp: debian_dependencies_def split: sum.splits)
  from debian_dependencies_requirements_Inl [OF this]
  show ?thesis by (auto simp: spec_result_Inl)
qed

lemma relationships_member:
  assumes "(operator, v) \<in> set (specs r)" "spec_result conv pkg r operator v = Inr d"
  shows "d \<in> set (relationships conv pkg r)"
proof -
  from assms(1) have "specs r \<noteq> []" by auto
  with assms show ?thesis by (force simp: relationships_def)
qed

lemma debian_dependencies_total:
  assumes "\<forall>r \<in> set (python_requirements pkg). \<forall>(operator, v) \<in> set (specs r).
             normalized_version conv pkg r v = ''dev'' \<or> operator \<in> supported_operators"
  shows "\<exists>deps. debian_dependencies conv pkg = Inr deps"
proof (cases "debian_dependencies conv pkg")
  case (Inl e)
  from debian_dependencies_Inl [OF Inl] assms show ?thesis by blast
next
  case (Inr deps)
  then show ?thesis by simp
qed

lemma spec_result_dev:
  "normalized_version conv pkg req v = ''dev'' \<Longrightarrow>
   spec_result conv pkg req operator v = Inr (debian_package_name conv req)"
  by (simp add: spec_result_def debian_dependencies_spec_dev)

lemma pinned_entry_name:
  "CHR '' '' \<notin> set n \<Longrightarrow> takeWhile (\<lambda>c. c \<noteq> CHR '' '') (n @ '' (= '' @ v @ '')'') = n"
  by (simp add: takeWhile_append)

text \<open>
  Claim C1. For every requirement the mapper processes and each of its (operator,
  version) pairs whose normalized version is not \<^verbatim>\<open>dev\<close>, the mapper follows the table of
  the specification: for a supported operator the loop body yields the relationship of
  the table (\<^verbatim>\<open>==\<close> gives \<^verbatim>\<open>name (= version)\<close>, \<^verbatim>\<open>!=\<close> gives
  \<^verbatim>\<open>name (<< version) | name (>> version)\<close> as one entry, \<^verbatim>\<open><\<close> gives \<^verbatim>\<open>name (<< version)\<close>,
  \<^verbatim>\<open>>\<close> gives \<^verbatim>\<open>name (>> version)\<close>, \<^verbatim>\<open><=\<close> and \<^verbatim>\<open>>=\<close> are passed through), and that
  relationship is in every list the mapper returns; for any other operator the loop body
  raises the unsupported-specifier error for the package, and the mapper fails with such
  an error.
\<close>

theorem debian_dependencies_table:
  assumes r: "req \<in> set (python_requirements pkg)"
    and s: "(operator, v) \<in> set (specs req)"
    and nd: "normalized_version conv pkg req v \<noteq> ''dev''"
  shows "case spec_relationship (debian_package_name conv req) operator
                (normalized_version conv pkg req v) of
           Some d \<Rightarrow>
             operator \<in> supported_operators
             \<and> spec_result conv pkg req operator v = Inr d
             \<and> (\<forall>deps. debian_dependencies conv pkg = Inr deps \<longrightarrow> d \<in> set deps)
         | None \<Rightarrow>
             operator \<notin> supported_operators
             \<and> spec_result conv pkg req operator v
                 = Inl (UnsupportedSpecifier operator (python_name pkg))
             \<and> (\<exists>operator'. operator' \<notin> supported_operators
                   \<and> debian_dependencies conv pkg
                       = Inl (UnsupportedSpecifier operator' (python_name pkg)))"
proof (cases "spec_relationship (debian_package_name conv req) operator
                (normalized_version conv pkg req v)")
  case None
  then have un: "operator \<notin> supported_operators" by (simp add: spec_relationship_None)
  from None nd have res: "spec_result conv pkg req operator v
                 = Inl (UnsupportedSpecifier operator (python_name pkg))"
    by (simp add: spec_result_def debian_dependencies_spec_table)
  have "\<exists>operator'. operator' \<notin> supported_operators
                   \<and> debian_dependencies conv pkg
                       = Inl (UnsupportedSpecifier operator' (python_name pkg))"
  proof (cases "debian_dependencies conv pkg")
    case (Inl e)
    from debian_dependencies_Inl [OF Inl] Inl show ?thesis by auto
  next
    case (Inr deps)
    from debian_dependencies_Inr(4) [OF Inr] r s res show ?thesis by force
  qed
  with None un res show ?thesis by simp
next
  case (Some d)
  then have sup: "operator \<in> supported_operators"
    using spec_relationship_None [of "debian_package_name conv req" operator
            "normalized_version conv pkg req v"] by simp
  from Some nd have res: "spec_result conv pkg req operator v = Inr d"
    by (simp add: spec_result_def debian_dependencies_spec_table)
  have "d \<in> set deps" if "debian_dependencies conv pkg = Inr deps" for deps
    using debian_dependencies_Inr(1) [OF that] relationships_member [OF s res] r by blast
  with Some sup res show ?thesis by simp
qed

theorem debian_dependencies_table_witness:
  "spec_relationship ''python-foo'' ''!='' ''1.0''
     = Some ''python-foo (<< 1.0) | python-foo (>> 1.0)''
   \<and> debian_dependencies example_converter
       (example_package [\<lparr>project_name = ''foo'', extras = [], specs = [(''!='', ''1.0'')]\<rparr>])
     = Inr [''python-foo (<< 1.0) | python-foo (>> 1.0)'']
   \<and> ''python-foo (<< 1.0) | python-foo (>> 1.0)''
       \<in> set [''python-foo (<< 1.0) | python-foo (>> 1.0)'']
   \<and> spec_relationship ''python-foo'' ''~='' ''1.0'' = None
   \<and> (\<exists>operator'. operator' \<notin> supported_operators
         \<and> debian_dependencies example_converter
             (example_package
                [\<lparr>project_name = ''foo'', extras = [], specs = [(''~='', ''1.0'')]\<rparr>])
           = Inl (UnsupportedSpecifier operator' ''celery''))"
proof -
  let ?r = "\<lparr>project_name = ''foo'', extras = [], specs = [(''!='', ''1.0'')]\<rparr>"
  let ?u = "\<lparr>project_name = ''foo'', extras = [], specs = [(''~='', ''1.0'')]\<rparr>"
  have rr: "?r \<in> set (python_requirements (example_package [?r]))"
    and ru: "?u \<in> set (python_requirements (example_package [?u]))"
    by (simp_all add: example_package_def)
  have sr: "(''!='', ''1.0'') \<in> set (specs ?r)" and su: "(''~='', ''1.0'') \<in> set (specs ?u)"
    by simp_all
  have vr: "normalized_version example_converter (example_package [?r]) ?r ''1.0'' = ''1.0''"
    and vu: "normalized_version example_converter (example_package [?u]) ?u ''1.0'' = ''1.0''"
    by (simp_all add: normalized_version_def example_converter_def)
  have nr: "debian_package_name example_converter ?r = ''python-foo''"
    and nu: "debian_package_name example_converter ?u = ''python-foo''"
    by (simp_all add: debian_package_name_def example_converter_def)
  have dr: "normalized_version example_converter (example_package [?r]) ?r ''1.0'' \<noteq> ''dev''"
    and du: "normalized_version example_converter (example_package [?u]) ?u ''1.0'' \<noteq> ''dev''"
    by (simp_all add: vr vu)
  have py: "python_name (example_package [?u]) = ''celery''"
    by (simp add: python_name_def example_package_def)
  have s: "spec_relationship ''python-foo'' ''!='' ''1.0''
             = Some ''python-foo (<< 1.0) | python-foo (>> 1.0)''"
    by (simp add: spec_relationship_def)
  have n: "spec_relationship ''python-foo'' ''~='' ''1.0'' = None"
    by (simp add: spec_relationship_def)
  have ok: "debian_dependencies example_converter (example_package [?r])
              = Inr [''python-foo (<< 1.0) | python-foo (>> 1.0)'']"
    by code_simp
  from debian_dependencies_table [OF rr sr dr]
  have "\<forall>deps. debian_dependencies example_converter (example_package [?r]) = Inr deps \<longrightarrow>
          ''python-foo (<< 1.0) | python-foo (>> 1.0)'' \<in> set deps"
    unfolding nr vr s by simp
  with ok have a: "''python-foo (<< 1.0) | python-foo (>> 1.0)''
             \<in> set [''python-foo (<< 1.0) | python-foo (>> 1.0)'']"
    by blast
  from debian_dependencies_table [OF ru su du]
  have b: "\<exists>operator'. operator' \<notin> supported_operators
         \<and> debian_dependencies example_converter (example_package [?u])
           = Inl (UnsupportedSpecifier operator' ''celery'')"
    unfolding nu vu n py by simp
  from s n ok a b show ?thesis by blast
qed

text \<open>
  Claim C2. For a requirement with no version specifiers, or with a pair whose normalized
  version is the marker \<^verbatim>\<open>dev\<close>, the mapper emits the bare transformed name: the loop body
  yields the name for such a pair instead of failing, the name is in every list the
  mapper returns, and the mapper does return a list when no other pair has an unsupported
  operator.
\<close>

theorem debian_dependencies_unconstrained:
  assumes r: "req \<in> set (python_requirements pkg)"
    and u: "specs req = []
            \<or> (\<exists>(operator, v) \<in> set (specs req). normalized_version conv pkg req v = ''dev'')"
  shows "(\<forall>operator v. (operator, v) \<in> set (specs req)
             \<and> normalized_version conv pkg req v = ''dev'' \<longrightarrow>
            spec_result conv pkg req operator v = Inr (debian_package_name conv req))
     \<and> (\<forall>deps. debian_dependencies conv pkg = Inr deps \<longrightarrow>
            debian_package_name conv req \<in> set deps)
     \<and> ((\<forall>r \<in> set (python_requirements pkg). \<forall>(operator, v) \<in> set (specs r).
             normalized_version conv pkg r v = ''dev'' \<or> operator \<in> supported_operators) \<longrightarrow>
          (\<exists>deps. debian_dependencies conv pkg = Inr deps
                  \<and> debian_package_name conv req \<in> set deps))"
proof -
  have m: "debian_package_name conv req \<in> set (relationships conv pkg req)"
  proof (cases "specs req = []")
    case True
    then show ?thesis by (simp add: relationships_def)
  next
    case False
    with u obtain operator v where s: "(operator, v) \<in> set (specs req)"
      and d: "normalized_version conv pkg req v = ''dev''" by auto
    from relationships_member [OF s spec_result_dev [OF d]] show ?thesis .
  qed
  have in_deps: "debian_package_name conv req \<in> set deps"
    if "debian_dependencies conv pkg = Inr deps" for deps
    using debian_dependencies_Inr(1) [OF that] m r by blast
  from in_deps debian_dependencies_total [of pkg conv] spec_result_dev
  show ?thesis by blast
qed

theorem debian_dependencies_unconstrained_witness:
  "debian_dependencies example_converter
     (example_package [\<lparr>project_name = ''pytz'', extras = [], specs = [(''>'', ''dev'')]\<rparr>,
                       \<lparr>project_name = ''kombu'', extras = [], specs = []\<rparr>])
   = Inr [''python-kombu'', ''python-pytz'']
   \<and> ''python-pytz'' \<in> set [''python-kombu'', ''python-pytz'']
   \<and> ''python-kombu'' \<in> set [''python-kombu'', ''python-pytz'']"
proof -
  let ?p = "\<lparr>project_name = ''pytz'', extras = [], specs = [(''>'', ''dev'')]\<rparr>"
  let ?k = "\<lparr>project_name = ''kombu'', extras = [], specs = []\<rparr>"
  let ?pkg = "example_package [?p, ?k]"
  have ev: "debian_dependencies example_converter ?pkg = Inr [''python-kombu'', ''python-pytz'']"
    by code_simp
  have rp: "?p \<in> set (python_requirements ?pkg)" and rk: "?k \<in> set (python_requirements ?pkg)"
    by (simp_all add: example_package_def)
  have up: "specs ?p = [] \<or> (\<exists>(operator, v) \<in> set (specs ?p).
              normalized_version example_converter ?pkg ?p v = ''dev'')"
    by (simp add: normalized_version_def example_converter_def)
  have uk: "specs ?k = [] \<or> (\<exists>(operator, v) \<in> set (specs ?k).
              normalized_version example_converter ?pkg ?k v = ''dev'')"
    by simp
  from debian_dependencies_unconstrained [OF rp up] ev
  have a: "debian_package_name example_converter ?p \<in> set [''python-kombu'', ''python-pytz'']"
    by blast
  from debian_dependencies_unconstrained [OF rk uk] ev
  have b: "debian_package_name example_converter ?k \<in> set [''python-kombu'', ''python-pytz'']"
    by blast
  from a b ev show ?thesis
    by (simp add: debian_package_name_def example_converter_def)
qed

text \<open>
  Claim C10. The check for the marker \<^verbatim>\<open>dev\<close> comes before the dispatch on the operator:
  for a pair whose normalized version is \<^verbatim>\<open>dev\<close> the loop body yields the bare name
  whatever the operator, the name is in every list the mapper returns, an
  unsupported-specifier error of the mapper always stems from a pair whose normalized
  version is not \<^verbatim>\<open>dev\<close>, and when every pair has the normalized version \<^verbatim>\<open>dev\<close> the mapper
  returns the sorted bare names.
\<close>

theorem debian_dependencies_dev_before_dispatch:
  assumes r: "req \<in> set (python_requirements pkg)"
    and s: "(operator, v) \<in> set (specs req)"
    and d: "normalized_version conv pkg req v = ''dev''"
  shows "spec_result conv pkg req operator v = Inr (debian_package_name conv req)
     \<and> (\<forall>deps. debian_dependencies conv pkg = Inr deps \<longrightarrow>
            debian_package_name conv req \<in> set deps)
     \<and> (\<forall>e. debian_dependencies conv pkg = Inl e \<longrightarrow>
            (\<exists>r' \<in> set (python_requirements pkg). \<exists>(operator', v') \<in> set (specs r').
                normalized_version conv pkg r' v' \<noteq> ''dev''
                \<and> operator' \<notin> supported_operators
                \<and> e = UnsupportedSpecifier operator' (python_name pkg)))
     \<and> ((\<forall>r' \<in> set (python_requirements pkg). \<forall>(operator', v') \<in> set (specs r').
             normalized_version conv pkg r' v' = ''dev'') \<longrightarrow>
          debian_dependencies conv pkg
            = Inr (sorted_list_of_set
                     (debian_package_name conv ` set (python_requirements pkg))))"
proof -
  note step = spec_result_dev [OF d, of operator]
  have in_deps: "debian_package_name conv req \<in> set deps"
    if "debian_dependencies conv pkg = Inr deps" for deps
    using debian_dependencies_Inr(1) [OF that] relationships_member [OF s step] r by blast
  have all_dev: "debian_dependencies conv pkg
            = Inr (sorted_list_of_set
                     (debian_package_name conv ` set (python_requirements pkg)))"
    if a: "\<forall>r' \<in> set (python_requirements pkg). \<forall>(operator', v') \<in> set (specs r').
             normalized_version conv pkg r' v' = ''dev''"
  proof -
    from a have "\<forall>r' \<in> set (python_requirements pkg). \<forall>(operator', v') \<in> set (specs r').
             normalized_version conv pkg r' v' = ''dev'' \<or> operator' \<in> supported_operators"
      by blast
    from debian_dependencies_total [OF this] obtain deps where
      deps: "debian_dependencies conv pkg = Inr deps" by blast
    have rel: "set (relationships conv pkg r') = {debian_package_name conv r'}"
      if "r' \<in> set (python_requirements pkg)" for r'
    proof (cases "specs r' = []")
      case True
      then show ?thesis by (simp add: relationships_def)
    next
      case False
      from a that have "\<forall>(operator', v') \<in> set (specs r').
          spec_result conv pkg r' operator' v' = Inr (debian_package_name conv r')"
        by (fastforce intro: spec_result_dev)
      with False show ?thesis
        by (cases "specs r'") (auto simp: relationships_def)
    qed
    from debian_dependencies_Inr(1) [OF deps] rel
    have "set deps = debian_package_name conv ` set (python_requirements pkg)" by auto
    with debian_dependencies_Inr(2,3) [OF deps]
    have "deps = sorted_list_of_set
                     (debian_package_name conv ` set (python_requirements pkg))"
      using sorted_list_of_set.idem_if_sorted_distinct [of deps] by simp
    with deps show ?thesis by simp
  qed
  from step in_deps all_dev debian_dependencies_Inl [of conv pkg] show ?thesis by blast
qed

theorem debian_dependencies_dev_before_dispatch_witness:
  "''~='' \<notin> supported_operators
   \<and> debian_dependencies example_converter
       (example_package [\<lparr>project_name = ''pytz'', extras = [], specs = [(''~='', ''dev'')]\<rparr>])
     = Inr [''python-pytz'']"
proof -
  let ?p = "\<lparr>project_name = ''pytz'', extras = [], specs = [(''~='', ''dev'')]\<rparr>"
  let ?pkg = "example_package [?p]"
  have un: "''~='' \<notin> supported_operators" by (simp add: supported_operators_def)
  have r: "?p \<in> set (python_requirements ?pkg)" by (simp add: example_package_def)
  have s: "(''~='', ''dev'') \<in> set (specs ?p)" by simp
  have d: "normalized_version example_converter ?pkg ?p ''dev'' = ''dev''"
    by (simp add: normalized_version_def example_converter_def)
  have a: "\<forall>r' \<in> set (python_requirements ?pkg). \<forall>(operator', v') \<in> set (specs r').
             normalized_version example_converter ?pkg r' v' = ''dev''"
    by (simp add: example_package_def normalized_version_def example_converter_def)
  from debian_dependencies_dev_before_dispatch [OF r s d] a
  have "debian_dependencies example_converter ?pkg
          = Inr (sorted_list_of_set
                   (debian_package_name example_converter ` set (python_requirements ?pkg)))"
    by blast
  then have "debian_dependencies example_converter ?pkg = Inr [''python-pytz'']"
    by (simp add: example_package_def debian_package_name_def example_converter_def)
  with un show ?thesis by blast
qed

text \<open>
  Claim C7, as the claim states it, fails: two requirements on one project, each with an
  \<^verbatim>\<open>==\<close> specifier, give two entries for that one project name.
\<close>

theorem debian_dependencies_two_pins_of_one_project:
  "debian_dependencies example_converter
     (example_package [\<lparr>project_name = ''foo'', extras = [], specs = [(''=='', ''1.0'')]\<rparr>,
                       \<lparr>project_name = ''foo'', extras = [], specs = [(''=='', ''2.0'')]\<rparr>])
   = Inr [''python-foo (= 1.0)'', ''python-foo (= 2.0)'']
   \<and> remdups (map project_name
        [\<lparr>project_name = ''foo'', extras = [], specs = [(''=='', ''1.0'')]\<rparr>,
         \<lparr>project_name = ''foo'', extras = [], specs = [(''=='', ''2.0'')]\<rparr>]) = [''foo'']"
proof -
  have "debian_dependencies example_converter
     (example_package [\<lparr>project_name = ''foo'', extras = [], specs = [(''=='', ''1.0'')]\<rparr>,
                       \<lparr>project_name = ''foo'', extras = [], specs = [(''=='', ''2.0'')]\<rparr>])
   = Inr [''python-foo (= 1.0)'', ''python-foo (= 2.0)'']"
    by code_simp
  then show ?thesis by simp
qed

text \<open>
  Claim C7, amended. For every requirement set whose specifiers use only \<^verbatim>\<open>==\<close>, the
  mapper returns a list that is sorted and free of duplicates. Its entries are, for each
  requirement, the string \<^verbatim>\<open>name (= normalizedVersion)\<close> of each specifier, and the bare
  name for a specifier whose normalized version is \<^verbatim>\<open>dev\<close> or for a requirement without
  specifiers; so they are exactly the strings \<^verbatim>\<open>name (= normalizedVersion)\<close> when every
  requirement has a specifier and no normalized version is \<^verbatim>\<open>dev\<close>. The list has exactly
  one entry per distinct project name when every requirement has a single specifier, no
  two requirements share a project name or a Debian name, and no Debian name contains a
  space.
\<close>

theorem debian_dependencies_pinned:
  assumes eq_only: "\<forall>r \<in> set (python_requirements pkg).
      \<forall>(operator, v) \<in> set (specs r). operator = ''==''"
  shows "\<exists>deps. debian_dependencies conv pkg = Inr deps
      \<and> sorted deps \<and> distinct deps
      \<and> set deps = (\<Union>r \<in> set (python_requirements pkg).
                      if specs r = [] then {debian_package_name conv r}
                      else (\<lambda>(operator, v).
                              if normalized_version conv pkg r v = ''dev''
                              then debian_package_name conv r
                              else debian_package_name conv r @ '' (= ''
                                   @ normalized_version conv pkg r v @ '')'')
                             ` set (specs r))
      \<and> ((\<forall>r \<in> set (python_requirements pkg).
              specs r \<noteq> []
              \<and> (\<forall>(operator, v) \<in> set (specs r).
                    normalized_version conv pkg r v \<noteq> ''dev'')) \<longrightarrow>
          set deps = (\<Union>r \<in> set (python_requirements pkg).
                        (\<lambda>(operator, v). debian_package_name conv r @ '' (= ''
                                           @ normalized_version conv pkg r v @ '')'')
                          ` set (specs r)))
      \<and> ((\<forall>r \<in> set (python_requirements pkg).
              length (specs r) = 1 \<and> CHR '' '' \<notin> set (debian_package_name conv r))
           \<and> inj_on project_name (set (python_requirements pkg))
           \<and> inj_on (debian_package_name conv) (set (python_requirements pkg)) \<longrightarrow>
          length deps = card (project_name ` set (python_requirements pkg)))"
proof -
  let ?reqs = "set (python_requirements pkg)"
  let ?pin = "\<lambda>r (operator :: string, v).
                  debian_package_name conv r @ '' (= '' @ normalized_version conv pkg r v @ '')''"
  let ?entry = "\<lambda>r (operator :: string, v).
                  if normalized_version conv pkg r v = ''dev''
                  then debian_package_name conv r
                  else debian_package_name conv r @ '' (= ''
                       @ normalized_version conv pkg r v @ '')''"
  have eq_sup: "''=='' \<in> supported_operators" by (simp add: supported_operators_def)
  from eq_only eq_sup have "\<forall>r \<in> ?reqs. \<forall>(operator, v) \<in> set (specs r).
      normalized_version conv pkg r v = ''dev'' \<or> operator \<in> supported_operators"
    by fastforce
  from debian_dependencies_total [OF this] obtain deps where
    deps: "debian_dependencies conv pkg = Inr deps" by blast
  have res: "spec_result conv pkg r operator v = Inr (?entry r (operator, v))"
    if "r \<in> ?reqs" "(operator, v) \<in> set (specs r)" for r operator v
  proof -
    from eq_only that have "operator = ''==''" by auto
    then show ?thesis by (simp add: spec_result_def debian_dependencies_spec_def)
  qed
  have rel: "set (relationships conv pkg r)
               = (if specs r = [] then {debian_package_name conv r}
                  else ?entry r ` set (specs r))" if "r \<in> ?reqs" for r
  proof (cases "specs r = []")
    case True
    then show ?thesis by (simp add: relationships_def)
  next
    case False
    have "map (\<lambda>(operator, v). case spec_result conv pkg r operator v of
                                  Inl e \<Rightarrow> [] | Inr d \<Rightarrow> [d]) (specs r)
          = map (\<lambda>s. [?entry r s]) (specs r)"
      using res [OF that] by (intro map_cong) auto
    with False show ?thesis by (auto simp: relationships_def)
  qed
  from debian_dependencies_Inr(1) [OF deps] rel
  have set_deps: "set deps = (\<Union>r \<in> ?reqs. if specs r = [] then {debian_package_name conv r}
                                          else ?entry r ` set (specs r))"
    by simp
  have pinned: "set deps = (\<Union>r \<in> ?reqs. ?pin r ` set (specs r))"
    if nd: "\<forall>r \<in> ?reqs. specs r \<noteq> []
              \<and> (\<forall>(operator, v) \<in> set (specs r).
                    normalized_version conv pkg r v \<noteq> ''dev'')"
  proof -
    have "(if specs r = [] then {debian_package_name conv r} else ?entry r ` set (specs r))
            = ?pin r ` set (specs r)" if "r \<in> ?reqs" for r
    proof -
      from nd that have ne: "specs r \<noteq> []" by blast
      have v: "?entry r s = ?pin r s" if s: "s \<in> set (specs r)" for s
      proof -
        obtain a b where ab: "s = (a, b)" by (cases s) auto
        from nd \<open>r \<in> ?reqs\<close>
        have "\<forall>(operator, v) \<in> set (specs r). normalized_version conv pkg r v \<noteq> ''dev''"
          by blast
        with s ab have "normalized_version conv pkg r b \<noteq> ''dev''" by fastforce
        with ab show ?thesis by simp
      qed
      have "?entry r ` set (specs r) = ?pin r ` set (specs r)"
        by (rule image_cong) (simp_all add: v)
      with ne show ?thesis by simp
    qed
    with set_deps show ?thesis by simp
  qed
  have count: "length deps = card (project_name ` ?reqs)"
    if one: "\<forall>r \<in> ?reqs. length (specs r) = 1 \<and> CHR '' '' \<notin> set (debian_package_name conv r)"
      and ip: "inj_on project_name ?reqs"
      and inm: "inj_on (debian_package_name conv) ?reqs"
  proof -
    let ?e = "\<lambda>r. ?entry r (hd (specs r))"
    have single: "(if specs r = [] then {debian_package_name conv r}
                   else ?entry r ` set (specs r)) = {?e r}" if "r \<in> ?reqs" for r
    proof -
      from one that have "length (specs r) = 1" by blast
      then obtain s where "specs r = [s]"
        by (cases "specs r") auto
      then show ?thesis by simp
    qed
    with set_deps have img: "set deps = ?e ` ?reqs" by auto
    have nm: "takeWhile (\<lambda>c. c \<noteq> CHR '' '') (?e r) = debian_package_name conv r"
      if "r \<in> ?reqs" for r
    proof -
      from one that have sp: "CHR '' '' \<notin> set (debian_package_name conv r)" by blast
      obtain a b where h: "hd (specs r) = (a, b)" by (cases "hd (specs r)") auto
      from sp have bare: "takeWhile (\<lambda>c. c \<noteq> CHR '' '') (debian_package_name conv r)
                            = debian_package_name conv r"
        by (auto simp: takeWhile_eq_all_conv)
      from pinned_entry_name [OF sp, of "normalized_version conv pkg r b"] bare h
      show ?thesis by simp
    qed
    have "inj_on ?e ?reqs"
    proof (rule inj_onI)
      fix r r'
      assume r: "r \<in> ?reqs" and r': "r' \<in> ?reqs" and e: "?e r = ?e r'"
      from nm [OF r] nm [OF r'] e
      have "debian_package_name conv r = debian_package_name conv r'" by simp
      with inm r r' show "r = r'" by (auto dest: inj_onD)
    qed
    with img have "card (set deps) = card ?reqs" by (simp add: card_image)
    moreover from ip have "card (project_name ` ?reqs) = card ?reqs" by (simp add: card_image)
    moreover from debian_dependencies_Inr(3) [OF deps] have "card (set deps) = length deps"
      by (simp add: distinct_card)
    ultimately show ?thesis by simp
  qed
  show ?thesis
  proof (intro exI [of _ deps] conjI impI)
    show "debian_dependencies conv pkg = Inr deps" by (rule deps)
    show "sorted deps" by (rule debian_dependencies_Inr(2) [OF deps])
    show "distinct deps" by (rule debian_dependencies_Inr(3) [OF deps])
    show "set deps = (\<Union>r \<in> ?reqs. if specs r = [] then {debian_package_name conv r}
                                     else ?entry r ` set (specs r))"
      by (rule set_deps)
  next
    assume "\<forall>r \<in> ?reqs. specs r \<noteq> []
              \<and> (\<forall>(operator, v) \<in> set (specs r).
                    normalized_version conv pkg r v \<noteq> ''dev'')"
    then show "set deps = (\<Union>r \<in> ?reqs. ?pin r ` set (specs r))" by (rule pinned)
  next
    assume h: "(\<forall>r \<in> ?reqs. length (specs r) = 1
                  \<and> CHR '' '' \<notin> set (debian_package_name conv r))
               \<and> inj_on project_name ?reqs
               \<and> inj_on (debian_package_name conv) ?reqs"
    show "length deps = card (project_name ` ?reqs)"
      by (rule count [OF conjunct1 [OF h] conjunct1 [OF conjunct2 [OF h]]
                         conjunct2 [OF conjunct2 [OF h]]])
  qed
qed

theorem debian_dependencies_pinned_witness:
  "debian_dependencies example_converter
     (example_package [\<lparr>project_name = ''pytz'', extras = [], specs = [(''=='', ''dev'')]\<rparr>,
                       \<lparr>project_name = ''kombu'', extras = [], specs = [(''=='', ''3.0'')]\<rparr>])
   = Inr [''python-kombu (= 3.0)'', ''python-pytz'']
   \<and> sorted [''python-kombu (= 3.0)'', ''python-pytz'']
   \<and> distinct [''python-kombu (= 3.0)'', ''python-pytz'']
   \<and> length [''python-kombu (= 3.0)'', ''python-pytz'']
       = card (project_name `
           set [\<lparr>project_name = ''pytz'', extras = [], specs = [(''=='', ''dev'')]\<rparr>,
                \<lparr>project_name = ''kombu'', extras = [], specs = [(''=='', ''3.0'')]\<rparr>])"
proof -
  let ?p = "\<lparr>project_name = ''pytz'', extras = [], specs = [(''=='', ''dev'')]\<rparr>"
  let ?k = "\<lparr>project_name = ''kombu'', extras = [], specs = [(''=='', ''3.0'')]\<rparr>"
  let ?pkg = "example_package [?p, ?k]"
  let ?L = "[''python-kombu (= 3.0)'', ''python-pytz'']"
  have reqs: "python_requirements ?pkg = [?p, ?k]" by (simp add: example_package_def)
  have ev: "debian_dependencies example_converter ?pkg = Inr ?L"
    by code_simp
  have eq_only: "\<forall>r \<in> set (python_requirements ?pkg).
      \<forall>(operator, v) \<in> set (specs r). operator = ''==''"
    by (simp add: reqs)
  have one: "\<forall>r \<in> set (python_requirements ?pkg).
              length (specs r) = 1 \<and> CHR '' '' \<notin> set (debian_package_name example_converter r)"
    by (simp add: reqs debian_package_name_def example_converter_def)
  have ip: "inj_on project_name (set (python_requirements ?pkg))"
    by (simp add: reqs)
  have inm: "inj_on (debian_package_name example_converter) (set (python_requirements ?pkg))"
    by (simp add: reqs debian_package_name_def example_converter_def)
  have "sorted ?L \<and> distinct ?L
        \<and> length ?L = card (project_name ` set (python_requirements ?pkg))"
    using debian_dependencies_pinned [OF eq_only, where conv = example_converter]
  proof (elim exE conjE)
    fix deps
    assume d: "debian_dependencies example_converter ?pkg = Inr deps"
      and s: "sorted deps" and di: "distinct deps"
      and c: "(\<forall>r \<in> set (python_requirements ?pkg).
                 length (specs r) = 1
                 \<and> CHR '' '' \<notin> set (debian_package_name example_converter r))
              \<and> inj_on project_name (set (python_requirements ?pkg))
              \<and> inj_on (debian_package_name example_converter) (set (python_requirements ?pkg))
              \<longrightarrow> length deps = card (project_name ` set (python_requirements ?pkg))"
    from d ev have eq: "deps = ?L" by simp
    note len = c [THEN mp, OF conjI [OF one conjI [OF ip inm]]]
    from s di len show ?thesis unfolding eq by (intro conjI)
  qed
  then have "sorted ?L \<and> distinct ?L \<and> length ?L = card (project_name ` set [?p, ?k])"
    unfolding reqs .
  with ev show ?thesis by blast
qed

end
